theory Spec2Isabelle
  imports Main "HOL-Library.Sublist"
begin

section \<open>Workflow files as data\<close>

text \<open>
  The repository's automation is three workflow files and one package recipe. A workflow
  file is embedded as the value its YAML denotes: a name, the events it is triggered
  \<open>on\<close>, and its jobs, each a list of steps in the order of the file. A scalar that contains
  expressions (\<^verbatim>\<open>${{ matrix.os }}\<close>, \<^verbatim>\<open>${{ secrets.PYPI_PUBLISH_KEY }}\<close>) is kept as
  a template, a list of text fragments and references, so that every reference of the
  file is still visible in the model and is resolved only when a job is scheduled.
\<close>

datatype frag = Txt string | Matrix string | Secret string | Env string

type_synonym template = "frag list"

text \<open>The only condition of the files: \<^verbatim>\<open>if: ${{ !env.ACT }}\<close>.\<close>

datatype cond = Not_env string

record step =
  step_name :: "string option"
  step_if :: "cond option"
  step_uses :: "string option"
  step_with :: "(string \<times> template) list"
  step_env :: "(string \<times> template) list"
  step_run :: "string list"

text \<open>A step gives only some of the keys; the others are absent.\<close>

definition no_step :: step where
  "no_step = \<lparr>step_name = None, step_if = None, step_uses = None,
     step_with = [], step_env = [], step_run = []\<rparr>"

record job =
  job_id :: string
  job_name :: "template option"
  job_runs_on :: template
  job_matrix :: "(string \<times> string list) list"
  job_steps :: "step list"

datatype trigger = On_release "string list" | On_push_branches_ignore "string list"

record workflow =
  wf_name :: string
  wf_on :: "trigger list"
  wf_jobs :: "job list"

subsection \<open>Events and triggers\<close>

datatype git_ref = Branch string | Tag string

datatype event = Release_event string | Push_event git_ref

text \<open>
  A \<open>release\<close> trigger fires on the activity types it lists. A \<open>push\<close> trigger that gives
  only \<open>branches-ignore\<close> fires on a push to a branch that none of the patterns matches,
  and on no tag. The patterns of these files (\<open>master\<close>) contain none of the pattern
  characters, so a pattern matches exactly the branch of that name.
\<close>

definition pattern_matches :: "string \<Rightarrow> string \<Rightarrow> bool" where
  "pattern_matches pat branch = (pat = branch)"

fun trigger_fires :: "trigger \<Rightarrow> event \<Rightarrow> bool" where
  "trigger_fires (On_release types) (Release_event t) = (t \<in> set types)"
| "trigger_fires (On_push_branches_ignore pats) (Push_event (Branch b)) =
     (\<not> list_ex (\<lambda>p. pattern_matches p b) pats)"
| "trigger_fires _ _ = False"

definition workflow_fires :: "workflow \<Rightarrow> event \<Rightarrow> bool" where
  "workflow_fires w ev = list_ex (\<lambda>t. trigger_fires t ev) (wf_on w)"

subsection \<open>Scheduling: the matrix, and the expressions resolved\<close>

text \<open>
  A job with a \<open>strategy.matrix\<close> is scheduled once for every combination of the
  matrix's values (a job without one, once, with the empty combination).
\<close>

fun matrix_combos :: "(string \<times> string list) list \<Rightarrow> (string \<times> string) list list" where
  "matrix_combos [] = [[]]"
| "matrix_combos ((k, vs) # rest) =
     concat (map (\<lambda>v. map (\<lambda>c. (k, v) # c) (matrix_combos rest)) vs)"

record ctx =
  ctx_matrix :: "(string \<times> string) list"
  ctx_secrets :: "string \<Rightarrow> string"
  ctx_env :: "string \<Rightarrow> string"

text \<open>A reference to a property that does not exist is the empty string.\<close>

fun eval_frag :: "ctx \<Rightarrow> frag \<Rightarrow> string" where
  "eval_frag c (Txt s) = s"
| "eval_frag c (Matrix k) = (case map_of (ctx_matrix c) k of Some v \<Rightarrow> v | None \<Rightarrow> [])"
| "eval_frag c (Secret k) = ctx_secrets c k"
| "eval_frag c (Env k) = ctx_env c k"

definition render :: "ctx \<Rightarrow> template \<Rightarrow> string" where
  "render c t = concat (map (eval_frag c) t)"

definition render_all :: "ctx \<Rightarrow> (string \<times> template) list \<Rightarrow> (string \<times> string) list" where
  "render_all c kvs = map (\<lambda>(k, t). (k, render c t)) kvs"

text \<open>Inside a step, the \<open>env\<close> context is the runner's, overridden by the step's own.\<close>

definition step_ctx :: "ctx \<Rightarrow> step \<Rightarrow> ctx" where
  "step_ctx c s = c\<lparr>ctx_env :=
     (\<lambda>k. case map_of (step_env s) k of Some t \<Rightarrow> render c t | None \<Rightarrow> ctx_env c k)\<rparr>"

definition step_enabled :: "ctx \<Rightarrow> step \<Rightarrow> bool" where
  "step_enabled c s =
     (case step_if s of None \<Rightarrow> True | Some (Not_env k) \<Rightarrow> ctx_env (step_ctx c s) k = [])"

text \<open>What the runner is handed for one step: every expression resolved.\<close>

record action =
  act_name :: "string option"
  act_uses :: "string option"
  act_with :: "(string \<times> string) list"
  act_env :: "(string \<times> string) list"
  act_run :: "string list"

definition resolve_step :: "ctx \<Rightarrow> step \<Rightarrow> action" where
  "resolve_step c s =
     \<lparr>act_name = step_name s, act_uses = step_uses s,
      act_with = render_all (step_ctx c s) (step_with s),
      act_env = render_all c (step_env s),
      act_run = step_run s\<rparr>"

record job_run =
  run_job :: string
  run_matrix :: "(string \<times> string) list"
  run_on :: string
  run_actions :: "action list"

definition schedule_job ::
  "(string \<Rightarrow> string) \<Rightarrow> (string \<Rightarrow> string) \<Rightarrow> job \<Rightarrow> (string \<times> string) list \<Rightarrow> job_run" where
  "schedule_job secrets env j combo =
     (let c = \<lparr>ctx_matrix = combo, ctx_secrets = secrets, ctx_env = env\<rparr>
      in \<lparr>run_job = job_id j, run_matrix = combo, run_on = render c (job_runs_on j),
          run_actions = map (resolve_step c) (filter (step_enabled c) (job_steps j))\<rparr>)"

definition job_runs :: "(string \<Rightarrow> string) \<Rightarrow> (string \<Rightarrow> string) \<Rightarrow> job \<Rightarrow> job_run list" where
  "job_runs secrets env j = map (schedule_job secrets env j) (matrix_combos (job_matrix j))"

text \<open>
  The jobs of a workflow do not depend on each other (no job has \<open>needs\<close>), so an event
  that fires the workflow schedules every job of it; any other event schedules nothing.
  A run lists the steps that the runner is handed, in the order in which it executes
  them. No step of the files sets \<open>continue-on-error\<close> or a status condition, so a step
  that fails ends its run there: the steps listed after it are executed when the ones
  before them have succeeded.
\<close>

definition workflow_runs ::
  "workflow \<Rightarrow> (string \<Rightarrow> string) \<Rightarrow> (string \<Rightarrow> string) \<Rightarrow> event \<Rightarrow> job_run list" where
  "workflow_runs w secrets env ev =
     (if workflow_fires w ev then concat (map (job_runs secrets env) (wf_jobs w)) else [])"

subsection \<open>What a step does\<close>

text \<open>
  A \<open>run\<close> script is a list of command lines. A line invokes a program when its words
  begin with the program's words: \<open>pip install -e .\<close> invokes \<open>pip install\<close>, and
  \<open>pip install pytest-xdist\<close> does not invoke \<open>pytest\<close>. Commands joined by \<open>&&\<close>
  are separate commands of the line.
\<close>

fun split_on :: "'a \<Rightarrow> 'a list \<Rightarrow> 'a list list" where
  "split_on d [] = [[]]"
| "split_on d (x # xs) =
     (if x = d then [] # split_on d xs
      else (case split_on d xs of [] \<Rightarrow> [[x]] | w # ws \<Rightarrow> (x # w) # ws))"

definition words :: "string \<Rightarrow> string list" where
  "words s = filter (\<lambda>w. w \<noteq> []) (split_on CHR '' '' s)"

definition commands :: "string \<Rightarrow> string list list" where
  "commands line = filter (\<lambda>c. c \<noteq> []) (split_on ''&&'' (words line))"

definition line_invokes :: "string list \<Rightarrow> string \<Rightarrow> bool" where
  "line_invokes prog line = list_ex (prefix prog) (commands line)"

definition invokes :: "string list \<Rightarrow> action \<Rightarrow> bool" where
  "invokes prog a = list_ex (line_invokes prog) (act_run a)"

text \<open>
  The steps of a job run in the order of the file. \<open>in_order ps as\<close>: the actions \<open>as\<close>
  contain, in this order, an action for each predicate of \<open>ps\<close> (each later in the list
  than the one before). \<open>all_before P Q as\<close>: no action from the first \<open>Q\<close> action on is
  a \<open>P\<close> action.
\<close>

fun in_order :: "('a \<Rightarrow> bool) list \<Rightarrow> 'a list \<Rightarrow> bool" where
  "in_order [] as = True"
| "in_order (p # ps) [] = False"
| "in_order (p # ps) (a # as) = (if p a then in_order ps as else in_order (p # ps) as)"

definition all_before :: "('a \<Rightarrow> bool) \<Rightarrow> ('a \<Rightarrow> bool) \<Rightarrow> 'a list \<Rightarrow> bool" where
  "all_before P Q as = list_all (\<lambda>a. \<not> P a) (dropWhile (\<lambda>a. \<not> Q a) as)"

definition last_action :: "job_run \<Rightarrow> action option" where
  "last_action r = (case run_actions r of [] \<Rightarrow> None | a # as \<Rightarrow> Some (last (a # as)))"

definition with_words :: "string \<Rightarrow> action \<Rightarrow> string list" where
  "with_words k a = (case map_of (act_with a) k of None \<Rightarrow> [] | Some v \<Rightarrow> words v)"

definition has_option :: "string \<Rightarrow> action \<Rightarrow> bool" where
  "has_option opt a =
     list_ex (\<lambda>l. list_ex (\<lambda>w. w = opt \<or> prefix (opt @ ''='') w) (words l)) (act_run a)"

text \<open>An installing step: one of its commands has the word \<open>install\<close>
  (\<open>pip install\<close>, \<open>python -m pip install\<close>, \<open>sudo apt install\<close>).\<close>

definition is_install :: "action \<Rightarrow> bool" where
  "is_install a = list_ex (\<lambda>l. list_ex (\<lambda>c. ''install'' \<in> set c) (commands l)) (act_run a)"

definition uses_action :: "string \<Rightarrow> action \<Rightarrow> bool" where
  "uses_action prefix_of_ref a =
     (case act_uses a of None \<Rightarrow> False | Some r \<Rightarrow> prefix prefix_of_ref r)"

section \<open>The workflow \<open>Publish To Pypi\<close>\<close>

definition linux_build :: job where
  "linux_build =
     \<lparr>job_id = ''linux-build'',
      job_name = Some [Txt ''Build and package: manylinux''],
      job_runs_on = [Txt ''ubuntu-latest''],
      job_matrix = [],
      job_steps =
       [no_step\<lparr>step_uses := Some ''actions/checkout@v2''\<rparr>,
        no_step\<lparr>step_name := Some ''Build manylinux Python wheels'',
          step_uses := Some ''RalfG/python-wheels-manylinux-build@v0.3.4-manylinux2014_x86_64'',
          step_with := [(''python-versions'', [Txt ''cp37-cp37m cp38-cp38 cp39-cp39'']),
                        (''build-requirements'', [Txt ''torch''])]\<rparr>,
        no_step\<lparr>step_name := Some ''Publish wheels to PyPI'',
          step_env := [(''TWINE_USERNAME'', [Txt ''__token__'']),
                       (''TWINE_PASSWORD'', [Secret ''PYPI_PUBLISH_KEY''])],
          step_run := [''twine upload dist/*'']\<rparr>]\<rparr>"

definition mac_windows_build :: job where
  "mac_windows_build =
     \<lparr>job_id = ''mac-windows-build'',
      job_name = Some [Txt ''Build and package: '', Matrix ''os'', Txt '' v'',
                       Matrix ''python-version''],
      job_runs_on = [Matrix ''os''],
      job_matrix = [(''os'', [''macos-latest'', ''windows-latest'']),
                    (''python-version'', [''3.7'', ''3.8'', ''3.9''])],
      job_steps =
       [no_step\<lparr>step_uses := Some ''actions/checkout@v2''\<rparr>,
        no_step\<lparr>step_name := Some ''Set up Python 3.x'',
          step_uses := Some ''actions/setup-python@v2'',
          step_with := [(''python-version'', [Matrix ''python-version''])]\<rparr>,
        no_step\<lparr>step_name := Some ''Install build dependencies'',
          step_run := [''pip install setuptools wheel pytest-xdist'',
                       ''pip install -e .'']\<rparr>,
        no_step\<lparr>step_name := Some ''Run unit tests'',
          step_run := [''pytest -n auto norse'']\<rparr>,
        no_step\<lparr>step_name := Some ''Build wheel'',
          step_run := [''python setup.py bdist_wheel sdist'']\<rparr>,
        no_step\<lparr>step_name := Some ''Publish wheels to PyPI'',
          step_env := [(''TWINE_USERNAME'', [Txt ''__token__'']),
                       (''TWINE_PASSWORD'', [Secret ''PYPI_PUBLISH_KEY''])],
          step_run := [''twine upload dist/*'']\<rparr>]\<rparr>"

definition publish_to_pypi :: workflow where
  "publish_to_pypi =
     \<lparr>wf_name = ''Publish To Pypi'',
      wf_on = [On_release [''published'']],
      wf_jobs = [linux_build, mac_windows_build]\<rparr>"

section \<open>The workflow \<open>Documentation Build\<close>\<close>

definition build_docs :: job where
  "build_docs =
     \<lparr>job_id = ''build-docs'',
      job_name = None,
      job_runs_on = [Txt ''ubuntu-latest''],
      job_matrix = [],
      job_steps =
       [no_step\<lparr>step_uses := Some ''actions/checkout@v1''\<rparr>,
        no_step\<lparr>step_name := Some ''Set up Python'',
          step_uses := Some ''actions/setup-python@v2'',
          step_with := [(''python-version'', [Txt ''3.x''])]\<rparr>,
        no_step\<lparr>step_name := Some ''Install system dependencies'',
          step_run := [''sudo apt update && sudo apt install g++ -y'']\<rparr>,
        no_step\<lparr>step_name := Some ''Fix sphinx-jupyterbook-latex bug'',
          step_run := [''pip install git+https://github.com/jegp/sphinx-jupyterbook-latex'']\<rparr>,
        no_step\<lparr>step_name := Some ''Install python dependencies'',
          step_run := [''python -m pip install --upgrade pip'',
                       ''pip install -r docs/requirements.txt'',
                       ''pip install -e .'']\<rparr>,
        no_step\<lparr>step_name := Some ''Compile docs'',
          step_run := [''jupyter-book build docs'']\<rparr>]\<rparr>"

definition documentation_build :: workflow where
  "documentation_build =
     \<lparr>wf_name = ''Documentation Build'',
      wf_on = [On_push_branches_ignore [''master'']],
      wf_jobs = [build_docs]\<rparr>"

section \<open>The workflow \<open>Python package\<close>\<close>

definition build_python_ubuntu :: job where
  "build_python_ubuntu =
     \<lparr>job_id = ''build-python-ubuntu'',
      job_name = Some [Txt ''Code quality checks v'', Matrix ''python-version''],
      job_runs_on = [Txt ''ubuntu-latest''],
      job_matrix = [(''python-version'', [''3.7'', ''3.8'', ''3.9''])],
      job_steps =
       [no_step\<lparr>step_uses := Some ''actions/checkout@master''\<rparr>,
        no_step\<lparr>step_name := Some ''Cache'',
          step_if := Some (Not_env ''ACT''),
          step_uses := Some ''actions/cache@v2'',
          step_env := [(''CACHE_NUMBER'', [Txt ''0''])],
          step_with := [(''path'', [Txt ''~/cpp_pkgs_dir'']),
                        (''key'', [Txt ''ubuntu-python-latest-'', Env ''CACHE_NUMBER''])]\<rparr>,
        no_step\<lparr>step_name := Some ''Install Python'',
          step_uses := Some ''actions/setup-python@v2'',
          step_with := [(''python-version'', [Matrix ''python-version''])]\<rparr>,
        no_step\<lparr>step_name := Some ''Install GCC'',
          step_run := [''sudo apt update'', ''sudo apt install g++ -y'']\<rparr>,
        no_step\<lparr>step_name := Some ''Install test dependencies'',
          step_run := [''pip install pytest-cov pytest-xdist pytype black '']\<rparr>,
        no_step\<lparr>step_name := Some ''Install optional libraries'',
          step_run := [''pip install matplotlib tensorboard pytorch-lightning'']\<rparr>,
        no_step\<lparr>step_name := Some ''Install package'',
          step_run := [''pip install -e .'']\<rparr>,
        no_step\<lparr>step_name := Some ''Run unit tests'',
          step_run := [''pytest norse -n auto --cov=./ --cov-report=xml'']\<rparr>,
        no_step\<lparr>step_name := Some ''Type check'',
          step_run := [''pytype norse -j 4'']\<rparr>,
        no_step\<lparr>step_name := Some ''Lint'',
          step_run := [''black --check norse'']\<rparr>,
        no_step\<lparr>step_name := Some ''Upload coverage'',
          step_uses := Some ''codecov/codecov-action@v1'',
          step_with := [(''token'', [Secret ''CODECOV_TOKEN'']),
                        (''flags'', [Txt ''unittests'']),
                        (''env_vars'', [Txt ''OS,PYTHON'']),
                        (''name'', [Txt ''codecov-umbrella'']),
                        (''fail_ci_if_error'', [Txt ''true''])]\<rparr>]\<rparr>"

definition build_python_mac_windows :: job where
  "build_python_mac_windows =
     \<lparr>job_id = ''build-python-mac-windows'',
      job_name = Some [Txt ''Build and package '', Matrix ''os'', Txt '' v'',
                       Matrix ''python-version''],
      job_runs_on = [Matrix ''os''],
      job_matrix = [(''python-version'', [''3.7'', ''3.8'', ''3.9'']),
                    (''os'', [''ubuntu-latest'', ''macos-latest'', ''windows-latest''])],
      job_steps =
       [no_step\<lparr>step_uses := Some ''actions/checkout@v2''\<rparr>,
        no_step\<lparr>step_name := Some ''Set up Python 3.x'',
          step_uses := Some ''actions/setup-python@v2'',
          step_with := [(''python-version'', [Matrix ''python-version''])]\<rparr>,
        no_step\<lparr>step_name := Some ''Install build dependencies'',
          step_run := [''pip install setuptools wheel pytest-xdist tensorboard'',
                       ''pip install -e .'']\<rparr>,
        no_step\<lparr>step_name := Some ''Run unit tests'',
          step_run := [''pytest -n auto norse'']\<rparr>,
        no_step\<lparr>step_name := Some ''Build wheel'',
          step_run := [''python setup.py bdist_wheel sdist'']\<rparr>]\<rparr>"

definition python_package :: workflow where
  "python_package =
     \<lparr>wf_name = ''Python package'',
      wf_on = [On_push_branches_ignore [''master'']],
      wf_jobs = [build_python_ubuntu, build_python_mac_windows]\<rparr>"

section \<open>The repository's workflows together\<close>

text \<open>
  An event reaches every workflow file of the repository; each decides by its own
  triggers whether it runs. What an event runs is what the three files run together.
\<close>

definition repository_workflows :: "workflow list" where
  "repository_workflows = [publish_to_pypi, documentation_build, python_package]"

definition repository_runs ::
  "(string \<Rightarrow> string) \<Rightarrow> (string \<Rightarrow> string) \<Rightarrow> event \<Rightarrow> job_run list" where
  "repository_runs secrets env ev =
     concat (map (\<lambda>w. workflow_runs w secrets env ev) repository_workflows)"

text \<open>
  A step builds wheels when it is the manylinux build action or invokes
  \<open>python setup.py bdist_wheel\<close>; a run is a wheel-building run when it has such a step.
  Three jobs of the repository have one: \<open>linux-build\<close> and \<open>mac-windows-build\<close> of the
  release workflow, and \<open>build-python-mac-windows\<close> of the workflow \<open>Python package\<close>.
\<close>

definition builds_wheels :: "action \<Rightarrow> bool" where
  "builds_wheels a =
     (uses_action ''RalfG/python-wheels-manylinux-build@'' a \<or>
      invokes [''python'', ''setup.py'', ''bdist_wheel''] a)"

definition wheel_building :: "job_run \<Rightarrow> bool" where
  "wheel_building r = list_ex builds_wheels (run_actions r)"

section \<open>The package recipe\<close>

text \<open>
  The recipe is a YAML file with Jinja expressions: two \<open>set\<close> statements, the filter
  \<open>lower\<close>, the function \<open>compiler\<close>, and the variable \<open>numpy\<close> of the build's variant
  configuration. A requirement may carry a selector (\<^verbatim>\<open># [win]\<close>): it is part of the
  recipe only on that platform.
\<close>

datatype jfrag = JTxt string | JVar string | JLower string | JCompiler string

record requirement =
  req_spec :: "jfrag list"
  req_selector :: "string option"

definition req :: "string \<Rightarrow> requirement" where
  "req s = \<lparr>req_spec = [JTxt s], req_selector = None\<rparr>"

record output_test =
  test_requires :: "string list"
  test_imports :: "string list"
  test_source_files :: "string list"
  test_commands :: "string list"

record recipe_output =
  out_name :: string
  out_files :: "string list"
  out_test :: output_test
  out_requirements :: "(string \<times> requirement list) list"

record recipe =
  rcp_set :: "(string \<times> string) list"
  rcp_package_name :: "jfrag list"
  rcp_package_version :: "jfrag list"
  rcp_source_path :: string
  rcp_outputs :: "recipe_output list"
  rcp_about :: "(string \<times> string) list"
  rcp_maintainers :: "string list"

definition lower_char :: "char \<Rightarrow> char" where
  "lower_char c =
     (case map_of (zip ''ABCDEFGHIJKLMNOPQRSTUVWXYZ'' ''abcdefghijklmnopqrstuvwxyz'') c of
        Some d \<Rightarrow> d | None \<Rightarrow> c)"

text \<open>
  The build environment: the platform, the variables of the variant configuration, and
  the package that \<open>compiler\<close> names for a language.
\<close>

record build_env =
  be_platform :: string
  be_variant :: "string \<Rightarrow> string"
  be_compiler :: "string \<Rightarrow> string"

definition jinja_var :: "recipe \<Rightarrow> build_env \<Rightarrow> string \<Rightarrow> string" where
  "jinja_var r e k = (case map_of (rcp_set r) k of Some v \<Rightarrow> v | None \<Rightarrow> be_variant e k)"

fun eval_jfrag :: "recipe \<Rightarrow> build_env \<Rightarrow> jfrag \<Rightarrow> string" where
  "eval_jfrag r e (JTxt s) = s"
| "eval_jfrag r e (JVar k) = jinja_var r e k"
| "eval_jfrag r e (JLower k) = map lower_char (jinja_var r e k)"
| "eval_jfrag r e (JCompiler l) = be_compiler e l"

definition render_jinja :: "recipe \<Rightarrow> build_env \<Rightarrow> jfrag list \<Rightarrow> string" where
  "render_jinja r e t = concat (map (eval_jfrag r e) t)"

definition selected :: "build_env \<Rightarrow> requirement \<Rightarrow> bool" where
  "selected e q = (case req_selector q of None \<Rightarrow> True | Some p \<Rightarrow> p = be_platform e)"

definition requirements_of :: "recipe \<Rightarrow> build_env \<Rightarrow> recipe_output \<Rightarrow> string \<Rightarrow> string list" where
  "requirements_of r e out section_name =
     (case map_of (out_requirements out) section_name of
        None \<Rightarrow> []
      | Some qs \<Rightarrow> map (\<lambda>q. render_jinja r e (req_spec q)) (filter (selected e) qs))"

definition package_version :: "recipe \<Rightarrow> build_env \<Rightarrow> string" where
  "package_version r e = render_jinja r e (rcp_package_version r)"

definition norse_output :: recipe_output where
  "norse_output =
     \<lparr>out_name = ''norse'',
      out_files = [''norse/'', ''CMakeLists.txt'', ''LICENSE'', ''logo.png'', ''norse_op.so'',
                   ''pyproject.toml'', ''README.md'', ''requirements.txt'', ''setup.py''],
      out_test =
        \<lparr>test_requires = [''pytest'', ''pytest-xdist''],
         test_imports = [''norse'', ''torch''],
         test_source_files = [''**/*.py'', ''*.so''],
         test_commands = [''pytest -n 4 -vv'']\<rparr>,
      out_requirements =
        [(''script'', [req ''python -m pip install --no-deps --ignore-installed -e .'']),
         (''build'',
            [req ''cmake'',
             req ''gxx_linux-64'',
             \<lparr>req_spec = [JCompiler ''cxx''], req_selector = Some ''win''\<rparr>,
             req ''pytorch>=1.9.0'']),
         (''host'',
            [\<lparr>req_spec = [JTxt ''numpy '', JVar ''numpy''], req_selector = None\<rparr>,
             req ''setuptools'', req ''typing_extensions'', req ''dataclasses'',
             req ''ninja'', req ''libuv'', req ''pkg-config'', req ''pip'']),
         (''run'',
            [req ''python'', req ''pip'', req ''pytorch>=1.9.0'', req ''torchvision'',
             req ''dataclasses'', req ''ninja'', req ''typing_extensions''])]\<rparr>"

definition meta_yaml :: recipe where
  "meta_yaml =
     \<lparr>rcp_set = [(''name'', ''norse''), (''version'', ''0.0.7RC2'')],
      rcp_package_name = [JLower ''name''],
      rcp_package_version = [JVar ''version''],
      rcp_source_path = ''../../'',
      rcp_outputs = [norse_output],
      rcp_about =
        [(''home'', ''https://github.com/norse/norse''),
         (''license'', ''LGPLv3''),
         (''license_file'', ''LICENSE''),
         (''summary'', ''A library to do deep learning with spiking neural networks.''),
         (''description'',
            ''Norse expands PyTorch with primitives for bio-inspired neural components, bringing you two advantages: ''
            @ [CHR 0x0A] @
            ''a modern and proven infrastructure based on PyTorch and deep learning-compatible spiking neural network components.''
            @ [CHR 0x0A]),
         (''dev_url'', ''https://github.com/norse/norse''),
         (''doc_url'', ''https://norse.github.io/norse/''),
         (''doc_source_url'', ''https://github.com/norse/norse/blob/master/README.md'')],
      rcp_maintainers = [''jegp'']\<rparr>"

section \<open>The executed notebook \<open>docs/pages/spiking.ipynb\<close>\<close>

text \<open>
  A notebook stores, with each code cell, the result the cell had when the notebook was
  last executed: the \<open>repr\<close> of the value of its last expression. The code cells of the
  page, with their stored \<open>text/plain\<close> results (the plot of the last cell left out):
\<close>

record code_cell =
  cell_source :: "string list"
  cell_result :: "string option"

definition spiking_ipynb :: "code_cell list" where
  "spiking_ipynb =
     [\<lparr>cell_source = [''import norse'', ''norse.__version__''],
       cell_result = Some (CHR 0x27 # ''0.0.7RC3'' @ [CHR 0x27])\<rparr>,
      \<lparr>cell_source = [''activation = norse.torch.LI()'', ''activation''],
       cell_result = Some
         ''LI(p=LIParameters(tau_syn_inv=tensor(200.), tau_mem_inv=tensor(100.), v_leak=tensor(0.)), dt=0.001)''\<rparr>,
      \<lparr>cell_source = [''import torch'', ''data = torch.randn(100, 1)'', ''data.shape''],
       cell_result = Some ''torch.Size([100, 1])''\<rparr>,
      \<lparr>cell_source = [''import matplotlib.pyplot as plt'', [], ''data = torch.randn(100, 1)'',
                      ''voltages, _ = activation(data)'', ''plt.plot(voltages.detach())''],
       cell_result = Some ''[<matplotlib.lines.Line2D at 0x7f77453c0550>]''\<rparr>]"

text \<open>The string that a \<open>repr\<close> in single quotes denotes (no escapes occur here).\<close>

fun py_str_of_repr :: "string \<Rightarrow> string option" where
  "py_str_of_repr [] = None"
| "py_str_of_repr (q # rest) =
     (if q = CHR 0x27 \<and> rest \<noteq> [] \<and> last rest = CHR 0x27 then Some (butlast rest)
      else None)"

text \<open>The value the notebook shows for an expression: the result of the first cell
  whose last line is that expression.\<close>

fun shown_value :: "code_cell list \<Rightarrow> string \<Rightarrow> string option" where
  "shown_value [] e = None"
| "shown_value (c # cs) e =
     (if cell_source c \<noteq> [] \<and> last (cell_source c) = e then cell_result c
      else shown_value cs e)"

definition notebook_version :: "code_cell list \<Rightarrow> string option" where
  "notebook_version nb =
     (case shown_value nb ''norse.__version__'' of
        None \<Rightarrow> None | Some r \<Rightarrow> py_str_of_repr r)"


section \<open>Properties\<close>

subsection \<open>The matrix\<close>

text \<open>
  A matrix of two keys is scheduled once for every pair of their values, and a matrix has
  as many combinations as the product of the numbers of values of its keys.
\<close>

lemma length_matrix_combos:
  "length (matrix_combos m) = prod_list (map (\<lambda>(k, vs). length vs) m)"
proof (induction m)
  case Nil
  then show ?case by simp
next
  case (Cons kv m)
  obtain k vs where kv: "kv = (k, vs)" by (cases kv)
  have "length (concat (map (\<lambda>v. map (\<lambda>c. (k, v) # c) (matrix_combos m)) vs)) =
        length vs * length (matrix_combos m)"
    by (induction vs) simp_all
  with Cons kv show ?case by simp
qed

lemma set_matrix_combos_two:
  "set (matrix_combos [(k1, vs1), (k2, vs2)]) =
     {[(k1, a), (k2, b)] | a b. a \<in> set vs1 \<and> b \<in> set vs2}"
  by auto

lemma matrix_combos_keys:
  "c \<in> set (matrix_combos m) \<Longrightarrow> map fst c = map fst m"
proof (induction m arbitrary: c)
  case Nil
  then show ?case by simp
next
  case (Cons kv m)
  obtain k vs where kv: "kv = (k, vs)" by (cases kv)
  with Cons.prems obtain v c' where "c = (k, v) # c'" "c' \<in> set (matrix_combos m)"
    by auto
  with Cons.IH kv show ?case by simp
qed

subsection \<open>The order of steps\<close>

text \<open>
  \<open>in_order\<close> decides whether the actions have a subsequence that satisfies the predicates
  one by one.
\<close>

lemma in_order_subseq:
  "in_order ps as \<longleftrightarrow> (\<exists>bs. subseq bs as \<and> list_all2 (\<lambda>p b. p b) ps bs)"
proof (induction ps as rule: in_order.induct)
  case (1 as)
  then show ?case by auto
next
  case (2 p ps)
  then show ?case by (auto simp: list_all2_Cons1)
next
  case (3 p ps a as)
  show ?case
  proof (cases "p a")
    case True
    have "(\<exists>bs. subseq bs (a # as) \<and> list_all2 (\<lambda>p b. p b) (p # ps) bs) \<longleftrightarrow>
          (\<exists>bs. subseq bs as \<and> list_all2 (\<lambda>p b. p b) ps bs)" (is "?L \<longleftrightarrow> ?R")
    proof
      assume ?L
      then obtain b bs where s: "subseq (b # bs) (a # as)" and pb: "p b"
        and rest: "list_all2 (\<lambda>p b. p b) ps bs"
        by (auto simp: list_all2_Cons1)
      from s have "subseq bs as"
        by (metis subseq_Cons' subseq_Cons2_iff)
      with rest show ?R by blast
    next
      assume ?R
      then obtain bs where "subseq bs as" "list_all2 (\<lambda>p b. p b) ps bs" by blast
      with True have "subseq (a # bs) (a # as) \<and> list_all2 (\<lambda>p b. p b) (p # ps) (a # bs)"
        by simp
      then show ?L by blast
    qed
    with True 3 show ?thesis by simp
  next
    case False
    have "(\<exists>bs. subseq bs (a # as) \<and> list_all2 (\<lambda>p b. p b) (p # ps) bs) \<longleftrightarrow>
          (\<exists>bs. subseq bs as \<and> list_all2 (\<lambda>p b. p b) (p # ps) bs)" (is "?L \<longleftrightarrow> ?R")
    proof
      assume ?L
      then obtain b bs where s: "subseq (b # bs) (a # as)" and pb: "p b"
        and rest: "list_all2 (\<lambda>p b. p b) ps bs"
        by (auto simp: list_all2_Cons1)
      from pb False have "b \<noteq> a" by auto
      with s have "subseq (b # bs) as" by (simp add: subseq_Cons2_iff)
      with pb rest show ?R by (metis list_all2_Cons)
    next
      assume ?R
      then show ?L using subseq_Cons' by blast
    qed
    with False 3 show ?thesis by simp
  qed
qed

text \<open>
  \<open>all_before P Q\<close> says that every \<open>P\<close> action stands at a smaller index than every
  \<open>Q\<close> action.
\<close>

lemma all_before_nth:
  assumes "all_before P Q as" "i < length as" "j < length as" "P (as ! i)" "Q (as ! j)"
  shows "i < j"
proof (rule ccontr)
  assume "\<not> i < j"
  then have ji: "j \<le> i" by simp
  let ?k = "length (takeWhile (\<lambda>a. \<not> Q a) as)"
  have "?k \<le> j"
  proof (rule ccontr)
    assume "\<not> ?k \<le> j"
    then have "j < ?k" by simp
    then have "\<not> Q (as ! j)"
      using nth_length_takeWhile takeWhile_nth
      by (metis nth_mem set_takeWhileD)
    with assms(5) show False by simp
  qed
  with ji have k: "?k \<le> i" by simp
  then have "drop ?k as ! (i - ?k) = as ! i" and "i - ?k < length (drop ?k as)"
    using assms(2) by simp_all
  then have "as ! i \<in> set (drop ?k as)" by (metis nth_mem)
  moreover have "drop ?k as = dropWhile (\<lambda>a. \<not> Q a) as"
    by (simp add: dropWhile_eq_drop)
  ultimately have "\<not> P (as ! i)"
    using assms(1) by (simp add: all_before_def list_all_iff)
  with assms(4) show False by simp
qed

lemmas wf_defs = workflow_runs_def workflow_fires_def job_runs_def schedule_job_def
  resolve_step_def step_enabled_def step_ctx_def render_def render_all_def no_step_def
  pattern_matches_def

lemmas q_defs = invokes_def line_invokes_def commands_def words_def uses_action_def
  with_words_def last_action_def has_option_def is_install_def

subsection \<open>Publishing a release\<close>

text \<open>
  C1. When a release is published, whatever the secrets and the runner's environment
  are, the workflow \<open>Publish To Pypi\<close> fires and the two push workflows do not: they
  run nothing, so the runs of the whole repository are the runs of \<open>Publish To Pypi\<close>,
  and the third wheel-building job of the repository, \<open>build-python-mac-windows\<close>, is
  not among them. Every run is a wheel-building run, and the jobs that run are exactly
  two, \<open>linux-build\<close> and \<open>mac-windows-build\<close>. \<open>linux-build\<close> runs once, on
  \<open>ubuntu-latest\<close>, and builds with the manylinux2014 build action for \<open>cp37-cp37m\<close>,
  \<open>cp38-cp38\<close> and \<open>cp39-cp39\<close>; \<open>mac-windows-build\<close> runs once for each of the six
  combinations of \<open>macos-latest\<close>, \<open>windows-latest\<close> with Python 3.7, 3.8, 3.9, on the
  runner of the combination, sets up the Python of the combination and builds with
  \<open>python setup.py bdist_wheel\<close>. The last step of each of the seven runs is
  \<open>twine upload dist/*\<close> with \<open>TWINE_USERNAME\<close> the text \<open>__token__\<close> and
  \<open>TWINE_PASSWORD\<close> the secret \<open>PYPI_PUBLISH_KEY\<close>.
\<close>

theorem publish_release_builds_and_uploads:
  "(let runs = repository_runs secrets env (Release_event ''published'') in
    workflow_fires publish_to_pypi (Release_event ''published'') \<and>
    \<not> workflow_fires documentation_build (Release_event ''published'') \<and>
    \<not> workflow_fires python_package (Release_event ''published'') \<and>
    workflow_runs documentation_build secrets env (Release_event ''published'') = [] \<and>
    workflow_runs python_package secrets env (Release_event ''published'') = [] \<and>
    runs = workflow_runs publish_to_pypi secrets env (Release_event ''published'') \<and>
    map job_id (wf_jobs publish_to_pypi) = [''linux-build'', ''mac-windows-build''] \<and>
    list_all wheel_building runs \<and>
    remdups (map run_job [r \<leftarrow> runs. wheel_building r]) =
      [''linux-build'', ''mac-windows-build''] \<and>
    length [r \<leftarrow> job_runs secrets env build_python_mac_windows. wheel_building r] = 9 \<and>
    list_all (\<lambda>r. run_job r \<noteq> ''build-python-mac-windows'') runs \<and>
    map (\<lambda>r. (run_job r, run_on r, run_matrix r)) runs =
      [(''linux-build'', ''ubuntu-latest'', []),
       (''mac-windows-build'', ''macos-latest'',
          [(''os'', ''macos-latest''), (''python-version'', ''3.7'')]),
       (''mac-windows-build'', ''macos-latest'',
          [(''os'', ''macos-latest''), (''python-version'', ''3.8'')]),
       (''mac-windows-build'', ''macos-latest'',
          [(''os'', ''macos-latest''), (''python-version'', ''3.9'')]),
       (''mac-windows-build'', ''windows-latest'',
          [(''os'', ''windows-latest''), (''python-version'', ''3.7'')]),
       (''mac-windows-build'', ''windows-latest'',
          [(''os'', ''windows-latest''), (''python-version'', ''3.8'')]),
       (''mac-windows-build'', ''windows-latest'',
          [(''os'', ''windows-latest''), (''python-version'', ''3.9'')])] \<and>
    [(act_uses a, with_words ''python-versions'' a).
       r \<leftarrow> runs, run_job r = ''linux-build'', a \<leftarrow> run_actions r,
       uses_action ''RalfG/python-wheels-manylinux-build@'' a] =
      [(Some ''RalfG/python-wheels-manylinux-build@v0.3.4-manylinux2014_x86_64'',
        [''cp37-cp37m'', ''cp38-cp38'', ''cp39-cp39''])] \<and>
    list_all
      (\<lambda>r. in_order
         [\<lambda>a. uses_action ''actions/setup-python@'' a \<and>
               map_of (act_with a) ''python-version'' = map_of (run_matrix r) ''python-version'',
          invokes [''python'', ''setup.py'', ''bdist_wheel'']]
         (run_actions r))
      [r \<leftarrow> runs. run_job r = ''mac-windows-build''] \<and>
    list_all
      (\<lambda>r. case last_action r of
         None \<Rightarrow> False
       | Some a \<Rightarrow>
           act_run a = [''twine upload dist/*''] \<and> invokes [''twine'', ''upload''] a \<and>
           act_env a = [(''TWINE_USERNAME'', ''__token__''),
                        (''TWINE_PASSWORD'', secrets ''PYPI_PUBLISH_KEY'')])
      runs)"
proof -
  have docs: "workflow_runs documentation_build secrets env (Release_event ''published'') = []"
    and no_docs: "\<not> workflow_fires documentation_build (Release_event ''published'')"
    by (simp_all add: workflow_runs_def workflow_fires_def documentation_build_def)
  have pkg: "workflow_runs python_package secrets env (Release_event ''published'') = []"
    and no_pkg: "\<not> workflow_fires python_package (Release_event ''published'')"
    by (simp_all add: workflow_runs_def workflow_fires_def python_package_def)
  have all_runs: "repository_runs secrets env (Release_event ''published'') =
      workflow_runs publish_to_pypi secrets env (Release_event ''published'')"
    by (simp add: repository_runs_def repository_workflows_def docs pkg)
  define push_wheels where
    "push_wheels = length [r \<leftarrow> job_runs secrets env build_python_mac_windows. wheel_building r]"
  have push_wheels: "push_wheels = 9"
    unfolding push_wheels_def
    by (simp add: job_runs_def schedule_job_def resolve_step_def step_enabled_def step_ctx_def
        render_def render_all_def no_step_def Let_def q_defs wheel_building_def
        builds_wheels_def build_python_mac_windows_def)
  show ?thesis
    unfolding Let_def all_runs push_wheels_def [symmetric]
    using docs no_docs pkg no_pkg push_wheels
    by (simp add: Let_def wf_defs q_defs wheel_building_def builds_wheels_def
        publish_to_pypi_def linux_build_def mac_windows_build_def)
qed

text \<open>
  C8. In the release workflow, each of the six runs of \<open>mac-windows-build\<close> has a step
  that invokes \<open>pytest\<close>, later a step that builds the wheel and later a step that uploads,
  and every \<open>pytest\<close> step stands before every building or uploading step. The one run
  of \<open>linux-build\<close> builds and then uploads; none of its steps invokes \<open>pytest\<close>: the
  only command line of the whole job is the upload.
\<close>

theorem release_tests_only_on_mac_windows:
  "(let runs = workflow_runs publish_to_pypi secrets env (Release_event ''published'');
        builds = (\<lambda>a. uses_action ''RalfG/python-wheels-manylinux-build@'' a \<or>
                       invokes [''python'', ''setup.py'', ''bdist_wheel''] a);
        uploads = invokes [''twine'', ''upload''];
        tests = invokes [''pytest'']
    in
    length [r \<leftarrow> runs. run_job r = ''mac-windows-build''] = 6 \<and>
    list_all
      (\<lambda>r. in_order [tests, builds, uploads] (run_actions r) \<and>
            all_before tests (\<lambda>a. builds a \<or> uploads a) (run_actions r))
      [r \<leftarrow> runs. run_job r = ''mac-windows-build''] \<and>
    length [r \<leftarrow> runs. run_job r = ''linux-build''] = 1 \<and>
    list_all
      (\<lambda>r. in_order [builds, uploads] (run_actions r) \<and>
            list_all (\<lambda>a. \<not> tests a) (run_actions r) \<and>
            concat (map act_run (run_actions r)) = [''twine upload dist/*''])
      [r \<leftarrow> runs. run_job r = ''linux-build''])"
  by (simp add: Let_def all_before_def wf_defs q_defs publish_to_pypi_def linux_build_def
      mac_windows_build_def)

subsection \<open>Pushes\<close>

text \<open>
  C2. The workflow \<open>Python package\<close> fires on a push to a branch exactly when the branch
  is not \<open>master\<close>, the repository's main branch. On such a push the job
  \<open>build-python-ubuntu\<close> runs once for each of the Python versions 3.7, 3.8 and 3.9, and
  each run sets up that Python and then has, in this order, a step that invokes \<open>pytest\<close>
  with \<open>--cov\<close> and \<open>--cov-report\<close>, a step that invokes \<open>pytype\<close>, a step that
  invokes \<open>black --check\<close>, and the upload step of the coverage service's action.
\<close>

theorem code_quality_on_push:
  "(workflow_fires python_package (Push_event (Branch b)) \<longleftrightarrow> b \<noteq> ''master'') \<and>
   (b \<noteq> ''master'' \<longrightarrow>
     (let runs = [r \<leftarrow> workflow_runs python_package secrets env (Push_event (Branch b)).
                    run_job r = ''build-python-ubuntu'']
      in
      map run_matrix runs =
        [[(''python-version'', ''3.7'')], [(''python-version'', ''3.8'')],
         [(''python-version'', ''3.9'')]] \<and>
      list_all
        (\<lambda>r. in_order
           [\<lambda>a. uses_action ''actions/setup-python@'' a \<and>
                 map_of (act_with a) ''python-version'' = map_of (run_matrix r) ''python-version'',
            \<lambda>a. invokes [''pytest''] a \<and> has_option ''--cov'' a \<and> has_option ''--cov-report'' a,
            invokes [''pytype''],
            invokes [''black'', ''--check''],
            uses_action ''codecov/codecov-action@'']
           (run_actions r))
        runs))"
proof -
  have fires: "workflow_fires python_package (Push_event (Branch b)) \<longleftrightarrow> b \<noteq> ''master''"
    by (auto simp: workflow_fires_def python_package_def pattern_matches_def)
  moreover have "?thesis" if "b \<noteq> ''master''"
    using that fires
    by (simp add: Let_def workflow_runs_def job_runs_def schedule_job_def
      resolve_step_def step_enabled_def step_ctx_def render_def render_all_def no_step_def
      q_defs python_package_def build_python_ubuntu_def build_python_mac_windows_def)
  ultimately show ?thesis by blast
qed

theorem code_quality_on_push_witness:
  "''dev'' \<noteq> ''master'' \<and>
   workflow_fires python_package (Push_event (Branch ''dev'')) \<and>
   map run_matrix
     [r \<leftarrow> workflow_runs python_package (\<lambda>_. []) (\<lambda>_. []) (Push_event (Branch ''dev'')).
        run_job r = ''build-python-ubuntu''] =
     [[(''python-version'', ''3.7'')], [(''python-version'', ''3.8'')],
      [(''python-version'', ''3.9'')]] \<and>
   list_all
     (\<lambda>r. in_order
        [\<lambda>a. uses_action ''actions/setup-python@'' a \<and>
              map_of (act_with a) ''python-version'' = map_of (run_matrix r) ''python-version'',
         \<lambda>a. invokes [''pytest''] a \<and> has_option ''--cov'' a \<and> has_option ''--cov-report'' a,
         invokes [''pytype''],
         invokes [''black'', ''--check''],
         uses_action ''codecov/codecov-action@'']
        (run_actions r))
     [r \<leftarrow> workflow_runs python_package (\<lambda>_. []) (\<lambda>_. []) (Push_event (Branch ''dev'')).
        run_job r = ''build-python-ubuntu'']"
  using code_quality_on_push [of "''dev''" "\<lambda>_. []" "\<lambda>_. []"]
  by (simp add: Let_def)

text \<open>
  C4. The workflow \<open>Documentation Build\<close> fires on a push to a branch exactly when the
  branch is not \<open>master\<close>. On such a push its one job, \<open>build-docs\<close>, runs once; the run
  has a step that installs \<open>docs/requirements.txt\<close> and the package itself
  (\<open>pip install -e .\<close>) and, later, the step \<open>jupyter-book build docs\<close>; and every
  installing step of the run stands at a smaller index than every step that invokes
  \<open>jupyter-book build\<close>.
\<close>

theorem docs_built_after_dependencies:
  "(workflow_fires documentation_build (Push_event (Branch b)) \<longleftrightarrow> b \<noteq> ''master'') \<and>
   (b \<noteq> ''master'' \<longrightarrow>
     (let runs = workflow_runs documentation_build secrets env (Push_event (Branch b)) in
      map run_job runs = [''build-docs''] \<and>
      list_all
        (\<lambda>r. in_order
           [\<lambda>a. invokes [''pip'', ''install'', ''-r'', ''docs/requirements.txt''] a \<and>
                 invokes [''pip'', ''install'', ''-e'', ''.''] a,
            invokes [''jupyter-book'', ''build'', ''docs'']]
           (run_actions r))
        runs \<and>
      (\<forall>r \<in> set runs. \<forall>i j.
         i < length (run_actions r) \<longrightarrow> j < length (run_actions r) \<longrightarrow>
         is_install (run_actions r ! i) \<longrightarrow>
         invokes [''jupyter-book'', ''build''] (run_actions r ! j) \<longrightarrow> i < j)))"
proof -
  have fires: "workflow_fires documentation_build (Push_event (Branch b)) \<longleftrightarrow> b \<noteq> ''master''"
    by (auto simp: workflow_fires_def documentation_build_def pattern_matches_def)
  define r where "r = schedule_job secrets env build_docs []"
  have runs: "workflow_runs documentation_build secrets env (Push_event (Branch b)) = [r]"
    if "b \<noteq> ''master''"
    using that fires
    by (simp add: workflow_runs_def job_runs_def documentation_build_def build_docs_def r_def)
  have job: "run_job r = ''build-docs''"
    by (simp add: r_def schedule_job_def build_docs_def Let_def)
  have order: "in_order
           [\<lambda>a. invokes [''pip'', ''install'', ''-r'', ''docs/requirements.txt''] a \<and>
                 invokes [''pip'', ''install'', ''-e'', ''.''] a,
            invokes [''jupyter-book'', ''build'', ''docs'']]
           (run_actions r)"
    by (simp add: Let_def r_def schedule_job_def resolve_step_def step_enabled_def step_ctx_def
      render_def render_all_def no_step_def q_defs build_docs_def)
  have before: "all_before is_install (invokes [''jupyter-book'', ''build'']) (run_actions r)"
    by (simp add: Let_def all_before_def r_def schedule_job_def resolve_step_def step_enabled_def
      step_ctx_def render_def render_all_def no_step_def q_defs build_docs_def)
  have "i < j" if "i < length (run_actions r)" "j < length (run_actions r)"
    "is_install (run_actions r ! i)" "invokes [''jupyter-book'', ''build''] (run_actions r ! j)"
    for i j
    using all_before_nth [OF before that] .
  with fires runs job order show ?thesis
    by (simp add: Let_def)
qed

theorem docs_built_after_dependencies_witness:
  "''dev'' \<noteq> ''master'' \<and>
   workflow_fires documentation_build (Push_event (Branch ''dev'')) \<and>
   (let as = concat (map run_actions
        (workflow_runs documentation_build (\<lambda>_. []) (\<lambda>_. []) (Push_event (Branch ''dev''))))
    in length as = 6 \<and>
       map is_install as = [False, False, True, True, True, False] \<and>
       map (invokes [''jupyter-book'', ''build'']) as = [False, False, False, False, False, True])"
  using docs_built_after_dependencies [of "''dev''" "\<lambda>_. []" "\<lambda>_. []"]
  by (simp add: Let_def wf_defs q_defs documentation_build_def build_docs_def)

text \<open>
  C10. The step \<open>Upload coverage\<close> of the job \<open>build-python-ubuntu\<close> gives the coverage
  action the input \<open>fail_ci_if_error: true\<close>, and each of the three runs of the job hands
  the action that input with the value \<open>true\<close>.
\<close>

theorem coverage_upload_fails_ci:
  "[map_of (step_with s) ''fail_ci_if_error''.
      s \<leftarrow> job_steps build_python_ubuntu, step_name s = Some ''Upload coverage''] =
     [Some [Txt ''true'']] \<and>
   [map_of (act_with a) ''fail_ci_if_error''.
      r \<leftarrow> job_runs secrets env build_python_ubuntu, a \<leftarrow> run_actions r,
      uses_action ''codecov/codecov-action@'' a] =
     [Some ''true'', Some ''true'', Some ''true'']"
  by (simp add: Let_def wf_defs q_defs build_python_ubuntu_def)

subsection \<open>The recipe\<close>

text \<open>
  C3. The recipe has one output, \<open>norse\<close>. Beside the install script, its requirements
  are the three sets \<open>build\<close>, \<open>host\<close> and \<open>run\<close>. In every build environment \<open>build\<close>
  has \<open>cmake\<close>, the C++ compiler package \<open>gxx_linux-64\<close> and \<open>pytorch>=1.9.0\<close> (and, on
  the platform \<open>win\<close> only, also the package that \<open>compiler('cxx')\<close> names); \<open>host\<close> is
  the list of eight packages of the file; \<open>run\<close> has \<open>python\<close> and \<open>pytorch>=1.9.0\<close>.
  The test section imports \<open>norse\<close> and \<open>torch\<close>, and its one command invokes \<open>pytest\<close>.
\<close>

theorem recipe_requirements_and_test:
  "rcp_outputs meta_yaml = [norse_output] \<and>
   map fst (out_requirements norse_output) = [''script'', ''build'', ''host'', ''run''] \<and>
   requirements_of meta_yaml e norse_output ''build'' =
     (if be_platform e = ''win''
      then [''cmake'', ''gxx_linux-64'', be_compiler e ''cxx'', ''pytorch>=1.9.0'']
      else [''cmake'', ''gxx_linux-64'', ''pytorch>=1.9.0'']) \<and>
   {''cmake'', ''gxx_linux-64'', ''pytorch>=1.9.0''}
     \<subseteq> set (requirements_of meta_yaml e norse_output ''build'') \<and>
   requirements_of meta_yaml e norse_output ''host'' =
     [''numpy '' @ be_variant e ''numpy'', ''setuptools'', ''typing_extensions'',
      ''dataclasses'', ''ninja'', ''libuv'', ''pkg-config'', ''pip''] \<and>
   requirements_of meta_yaml e norse_output ''run'' =
     [''python'', ''pip'', ''pytorch>=1.9.0'', ''torchvision'', ''dataclasses'', ''ninja'',
      ''typing_extensions''] \<and>
   {''python'', ''pytorch>=1.9.0''} \<subseteq> set (requirements_of meta_yaml e norse_output ''run'') \<and>
   test_imports (out_test norse_output) = [''norse'', ''torch''] \<and>
   test_commands (out_test norse_output) = [''pytest -n 4 -vv''] \<and>
   list_all (line_invokes [''pytest'']) (test_commands (out_test norse_output))"
  by (simp add: meta_yaml_def norse_output_def requirements_of_def selected_def req_def
      render_jinja_def jinja_var_def line_invokes_def commands_def words_def)

text \<open>
  C9. The version the recipe declares is \<open>0.0.7RC2\<close> in every build environment; the
  version the executed notebook shows for \<open>norse.__version__\<close> is \<open>0.0.7RC3\<close>. The two
  are not equal.
\<close>

theorem recipe_version_differs_from_notebook:
  "package_version meta_yaml e = ''0.0.7RC2'' \<and>
   notebook_version spiking_ipynb = Some ''0.0.7RC3'' \<and>
   Some (package_version meta_yaml e) \<noteq> notebook_version spiking_ipynb"
  by (simp add: package_version_def meta_yaml_def render_jinja_def jinja_var_def
      notebook_version_def spiking_ipynb_def)

end
